theory Spec2Isabelle
  imports Main "HOL-Library.Word"
begin

section \<open>The JSON-RPC 2.0 server codec\<close>

text \<open>
  A shallow embedding of the server codec of package \<^verbatim>\<open>jsonrpc2\<close>: the error values of
  \<^verbatim>\<open>error.go\<close> and the three codec operations \<^verbatim>\<open>ReadRequestHeader\<close>,
  \<^verbatim>\<open>ReadRequestBody\<close> and \<^verbatim>\<open>WriteResponse\<close>. The codec is a Go struct that is mutated in
  place; here every operation takes the codec and returns the updated one. The mutex only
  brackets the accesses to \<^verbatim>\<open>seq\<close> and \<^verbatim>\<open>pending\<close>; the model is sequential and leaves it out.
\<close>

subsection \<open>Values and errors (error.go)\<close>

text \<open>\<^verbatim>\<open>json.RawMessage\<close> is a byte slice holding JSON text; \<^verbatim>\<open>*json.RawMessage\<close> is
  \<open>RawMessage option\<close>, with \<open>None\<close> for the nil pointer.\<close>

type_synonym RawMessage = string

text \<open>
  A value of type \<^verbatim>\<open>interface{}\<close>, as far as the encoder can tell values apart: the nil
  interface, a Go string, any other value that \<^verbatim>\<open>json.Marshal\<close> renders (kept as the JSON
  text it renders to), and a value that \<^verbatim>\<open>json.Marshal\<close> rejects (a channel, a function).
\<close>

datatype iface = INil | IString string | IValue string | IUnsupported

type_synonym ErrCode = int

definition ErrCodeParse :: ErrCode where "ErrCodeParse = -32700"
definition ErrCodeInvalidReq :: ErrCode where "ErrCodeInvalidReq = -32600"
definition ErrCodeMethodNotFound :: ErrCode where "ErrCodeMethodNotFound = -32601"
definition ErrCodeInvalidParams :: ErrCode where "ErrCodeInvalidParams = -32602"
definition ErrCodeInternal :: ErrCode where "ErrCodeInternal = -32603"
definition ErrCodeServer :: ErrCode where "ErrCodeServer = -32001"
definition ErrCodeServiceNotFound :: ErrCode where "ErrCodeServiceNotFound = -32002"

definition ErrMsgParse :: string where "ErrMsgParse = ''Parse error''"
definition ErrMsgInvalidReq :: string where "ErrMsgInvalidReq = ''Invalid Request''"
definition ErrMsgMethodNotFound :: string where "ErrMsgMethodNotFound = ''Method not found''"
definition ErrMsgInvalidParams :: string where "ErrMsgInvalidParams = ''Invalid params''"
definition ErrMsgInternal :: string where "ErrMsgInternal = ''Internal error''"
definition ErrMsgServiceNotFound :: string where "ErrMsgServiceNotFound = ''Service not found''"

record Error =
  Code :: ErrCode
  Msg :: string
  Data :: iface

text \<open>
  The values of Go's \<^verbatim>\<open>error\<close> interface that the codec returns or is handed: a typed
  \<^verbatim>\<open>*Error\<close>, an error made by \<^verbatim>\<open>errors.New\<close>, an error of the JSON package (decoding or
  marshalling), \<^verbatim>\<open>io.EOF\<close> at the end of the input, and a failure of the stream. A nil
  \<^verbatim>\<open>error\<close> is \<open>None\<close> of \<open>error option\<close>.
\<close>

datatype error =
    RPC Error
  | ErrorString string
  | JSONError string
  | EOF
  | StreamError string

subsection \<open>The stream\<close>

text \<open>
  JSON as it goes out on the wire. An object is the list of its members in the order in
  which they are written; \<open>JRaw\<close> is JSON text passed through as it is; \<open>JForeign\<close> stands
  for the rendering of an error value whose Go type is declared outside this package.
\<close>

datatype json =
    JNull
  | JInt int
  | JString string
  | JRaw RawMessage
  | JForeign error
  | JObject "(string \<times> json) list"

text \<open>
  What one call of \<^verbatim>\<open>Write\<close> on the connection carries: the bytes of a direct write, or
  the value written by \<^verbatim>\<open>json.Encoder.Encode\<close>, which is the JSON text of the value
  followed by a newline.
\<close>

datatype chunk = Raw string | Encoded json

text \<open>
  The write side of the \<^verbatim>\<open>io.ReadWriteCloser\<close>: the chunks written so far, and whether the
  stream refuses writes (\<open>wfail = Some e\<close>: every write fails with \<open>e\<close> and nothing is
  written).
\<close>

record conn =
  written :: "chunk list"
  wfail :: "error option"

definition Write :: "conn \<Rightarrow> chunk \<Rightarrow> conn \<times> error option" where
  "Write w b =
     (case wfail w of
        Some e \<Rightarrow> (w, Some e)
      | None \<Rightarrow> (w\<lparr>written := written w @ [b]\<rparr>, None))"

text \<open>
  The read side: the JSON values that \<^verbatim>\<open>json.Decoder.Decode\<close> will meet on the input, one
  per call. For each value, the members of the request object that the decoder can store
  (\<open>None\<close>: the member is absent, or the decoder leaves the field alone), and the error
  that \<^verbatim>\<open>Decode\<close> returns for the value, if any.
\<close>

record incoming =
  in_err :: "error option"
  in_jsonrpc :: "string option"
  in_method :: "string option"
  in_params :: "RawMessage option"
  in_id :: "RawMessage option"

subsection \<open>The codec state\<close>

record serverRequest =
  Version :: string
  Method :: string
  Params :: "RawMessage option"
  Id :: "RawMessage option"

definition reset :: "serverRequest \<Rightarrow> serverRequest" where
  "reset r = r\<lparr>serverRequest.Version := '''', Method := '''', Params := None,
                serverRequest.Id := None\<rparr>"

text \<open>The field \<^verbatim>\<open>Error\<close> only ever receives the \<^verbatim>\<open>error\<close> of a \<^verbatim>\<open>Response\<close>, so it is
  typed as one; \<open>None\<close> is the nil interface.\<close>

record serverResponse =
  Version :: string
  Id :: "RawMessage option"
  Result :: iface
  Error :: "error option"

text \<open>The constant \<^verbatim>\<open>Version\<close> of the package.\<close>

definition Version :: string where
  "Version = ''2.0''"

text \<open>
  The codec: \<open>dec\<close> is the decoder over the input; \<open>enc\<close> is the state of the encoder, which
  is the error of its first failed write (a \<^verbatim>\<open>json.Encoder\<close> keeps that error and returns it
  from every later \<^verbatim>\<open>Encode\<close> without writing), \<open>None\<close> as long as no write has failed;
  \<open>rwc\<close> is the connection (field \<^verbatim>\<open>c\<close> of the Go struct), which the encoder writes to as
  well; \<open>req\<close> is the work space, \<open>seq\<close> the \<^verbatim>\<open>uint64\<close> counter and \<open>pending\<close> the map from
  sequence numbers to request ids.
\<close>

record serverCodec =
  dec :: "incoming list"
  enc :: "error option"
  rwc :: conn
  req :: serverRequest
  seq :: "64 word"
  pending :: "64 word \<rightharpoonup> RawMessage option"

definition NewServerCodec :: "incoming list \<Rightarrow> conn \<Rightarrow> serverCodec" where
  "NewServerCodec input w =
     \<lparr>dec = input, enc = None, rwc = w,
      req = \<lparr>serverRequest.Version = '''', Method = '''', Params = None,
             serverRequest.Id = None\<rparr>,
      seq = 0, pending = Map.empty\<rparr>"

text \<open>
  Modelled from the spec: the types \<^verbatim>\<open>Request\<close> and \<^verbatim>\<open>Response\<close>
  belong to the dispatch engine, whose declarations are missing. The codec sets the method
  name and the sequence number of a request, and reads the sequence number and the error of
  a response (the error is nil when the call succeeded).
\<close>

record Request =
  ServiceMethod :: string
  Seq :: "64 word"

record Response =
  Seq :: "64 word"
  Error :: "error option"

subsection \<open>Library functions the codec calls\<close>

text \<open>\<^verbatim>\<open>strings.LastIndex\<close>: the index of the last occurrence of \<open>sep\<close> in \<open>s\<close>, or \<open>-1\<close>.\<close>

definition LastIndex :: "string \<Rightarrow> string \<Rightarrow> int" where
  "LastIndex s sep =
     (if length s < length sep then -1
      else case filter (\<lambda>i. take (length sep) (drop i s) = sep)
                  (rev [0 ..< Suc (length s - length sep)]) of
             [] \<Rightarrow> -1
           | i # _ \<Rightarrow> int i)"

text \<open>\<^verbatim>\<open>Decode(&c.req)\<close>: takes the next value off the input and stores the members it
  brings into the request; at the end of the input it returns \<^verbatim>\<open>io.EOF\<close>.\<close>

definition store :: "incoming \<Rightarrow> serverRequest \<Rightarrow> serverRequest" where
  "store v q =
     \<lparr>serverRequest.Version =
        (case in_jsonrpc v of None \<Rightarrow> serverRequest.Version q | Some s \<Rightarrow> s),
      Method = (case in_method v of None \<Rightarrow> Method q | Some s \<Rightarrow> s),
      Params = (case in_params v of None \<Rightarrow> Params q | Some p \<Rightarrow> Some p),
      serverRequest.Id = (case in_id v of None \<Rightarrow> serverRequest.Id q | Some b \<Rightarrow> Some b)\<rparr>"

definition Decode :: "incoming list \<Rightarrow> serverRequest \<Rightarrow> incoming list \<times> serverRequest \<times> error option" where
  "Decode d q =
     (case d of
        [] \<Rightarrow> ([], q, Some EOF)
      | v # rest \<Rightarrow> (rest, store v q, in_err v))"

text \<open>
  \<^verbatim>\<open>json.Marshal\<close> on an error and on a \<^verbatim>\<open>serverResponse\<close>, following the struct tags:
  \<^verbatim>\<open>data\<close>, \<^verbatim>\<open>result\<close> and \<^verbatim>\<open>error\<close> are \<^verbatim>\<open>omitempty\<close> fields of interface type, left out
  when the interface is nil; \<^verbatim>\<open>id\<close> is always written, as \<^verbatim>\<open>null\<close> for a nil pointer.
\<close>

fun iface_json :: "iface \<Rightarrow> json" where
  "iface_json INil = JNull"
| "iface_json (IString s) = JString s"
| "iface_json (IValue t) = JRaw t"
| "iface_json IUnsupported = JNull"

fun error_json :: "error \<Rightarrow> json" where
  "error_json (RPC e) =
     JObject ([(''code'', JInt (Code e)), (''message'', JString (Msg e))]
              @ (if Data e = INil then [] else [(''data'', iface_json (Data e))]))"
| "error_json e = JForeign e"

fun marshalable_error :: "error \<Rightarrow> bool" where
  "marshalable_error (RPC e) = (Data e \<noteq> IUnsupported)"
| "marshalable_error e = True"

definition marshalable :: "serverResponse \<Rightarrow> bool" where
  "marshalable resp \<longleftrightarrow>
     Result resp \<noteq> IUnsupported \<and>
     (case serverResponse.Error resp of None \<Rightarrow> True | Some e \<Rightarrow> marshalable_error e)"

definition members :: "serverResponse \<Rightarrow> (string \<times> json) list" where
  "members resp =
     [(''jsonrpc'', JString (serverResponse.Version resp)),
      (''id'', (case serverResponse.Id resp of None \<Rightarrow> JNull | Some b \<Rightarrow> JRaw b))]
     @ (if Result resp = INil then [] else [(''result'', iface_json (Result resp))])
     @ (case serverResponse.Error resp of None \<Rightarrow> [] | Some e \<Rightarrow> [(''error'', error_json e)])"

definition Marshal :: "serverResponse \<Rightarrow> error + json" where
  "Marshal resp =
     (if marshalable resp then Inr (JObject (members resp))
      else Inl (JSONError ''json: unsupported type''))"

text \<open>
  \<^verbatim>\<open>c.enc.Encode(resp)\<close>. An encoder that holds the error of an earlier write returns it
  at once. Otherwise it marshals the value, and returns the error if that fails; then it
  makes one write to the connection, and keeps and returns the error if the write fails.
\<close>

definition Encode :: "serverCodec \<Rightarrow> serverResponse \<Rightarrow> serverCodec \<times> error option" where
  "Encode cd resp =
     (case enc cd of
        Some e \<Rightarrow> (cd, Some e)
      | None \<Rightarrow>
          (case Marshal resp of
             Inl e \<Rightarrow> (cd, Some e)
           | Inr j \<Rightarrow>
               (case Write (rwc cd) (Encoded j) of
                  (w, None) \<Rightarrow> (cd\<lparr>rwc := w\<rparr>, None)
                | (w, Some e) \<Rightarrow> (cd\<lparr>enc := Some e, rwc := w\<rparr>, Some e))))"

subsection \<open>The codec operations\<close>

definition ReadRequestHeader :: "serverCodec \<Rightarrow> Request \<Rightarrow> serverCodec \<times> Request \<times> error option" where
  "ReadRequestHeader cd r =
     (case Decode (dec cd) (reset (req cd)) of
        (d, q, Some err) \<Rightarrow> (cd\<lparr>dec := d, req := q\<rparr>, r, Some err)
      | (d, q, None) \<Rightarrow>
          (let cd1 = cd\<lparr>dec := d, req := q\<rparr>;
               r1 = r\<lparr>ServiceMethod := Method q\<rparr>;
               dot = LastIndex (ServiceMethod r1) ''.''
           in if dot < 0
              then (cd1, r1,
                    Some (RPC \<lparr>Code = ErrCodeInvalidReq, Msg = ErrMsgInvalidReq,
                               Data = IString (''rpc: service/method request ill-formed: ''
                                               @ ServiceMethod r1)\<rparr>))
              else (let s = seq cd1 + 1;
                        cd2 = cd1\<lparr>seq := s,
                                  pending := (pending cd1)(s \<mapsto> serverRequest.Id q),
                                  req := q\<lparr>serverRequest.Id := None\<rparr>\<rparr>
                    in (cd2, r1\<lparr>Request.Seq := s\<rparr>, None))))"

text \<open>
  \<^verbatim>\<open>ReadRequestBody(x)\<close>. The destination \<open>x\<close> is nil (\<open>None\<close>) or a value to decode
  into, given by what \<^verbatim>\<open>json.Unmarshal\<close> does with a JSON text at that destination:
  \<open>None\<close> when it returns an error, otherwise the destination as filled. The result is
  the filled destination, if any, and the error returned.
\<close>

definition ReadRequestBody :: "serverCodec \<Rightarrow> (RawMessage \<Rightarrow> 'a option) option \<Rightarrow> 'a option \<times> error option" where
  "ReadRequestBody cd x =
     (case x of
        None \<Rightarrow> (None, None)
      | Some unmarshal \<Rightarrow>
          (case Params (req cd) of
             None \<Rightarrow> (None, Some (RPC \<lparr>Code = ErrCodeInvalidParams, Msg = ErrMsgInvalidParams,
                                        Data = INil\<rparr>))
           | Some p \<Rightarrow>
               (case unmarshal p of
                  None \<Rightarrow> (None, Some (RPC \<lparr>Code = ErrCodeParse, Msg = ErrMsgParse,
                                             Data = INil\<rparr>))
                | Some v \<Rightarrow> (Some v, None))))"

definition null_RawMessage :: RawMessage where
  "null_RawMessage = ''null''"

definition WriteResponse :: "serverCodec \<Rightarrow> Response \<Rightarrow> iface \<Rightarrow> serverCodec \<times> error option" where
  "WriteResponse cd r x =
     (case pending cd (Response.Seq r) of
        None \<Rightarrow>
          (case Response.Error r of
             Some e \<Rightarrow>
               (let resp = \<lparr>serverResponse.Version = Version,
                            Id = Some null_RawMessage, Result = INil, Error = None\<rparr>;
                    resp = resp\<lparr>serverResponse.Error := Response.Error r\<rparr>
                in Encode cd resp)
           | None \<Rightarrow> (cd, Some (ErrorString ''invalid sequence number in response'')))
      | Some b \<Rightarrow>
          (let cd1 = cd\<lparr>pending := (pending cd)(Response.Seq r := None)\<rparr>
           in if b = None
              then (cd1\<lparr>rwc := fst (Write (rwc cd1) (Raw [CHR 0x0A]))\<rparr>, None)
              else (let resp = \<lparr>serverResponse.Version = Version,
                                 Id = b, Result = INil, Error = None\<rparr>;
                        resp = (if Response.Error r = None then resp\<lparr>Result := x\<rparr>
                                else resp\<lparr>serverResponse.Error := Response.Error r\<rparr>)
                    in Encode cd1 resp)))"

subsection \<open>Sample inputs\<close>

text \<open>
  Connections and requests used to run the model: a connection that accepts writes and one
  whose peer has gone away, and requests after the table of \<^verbatim>\<open>server_test.go\<close>: a call
  with positional parameters, a notification, a method name without a qualifier, a call
  without parameters, two calls whose \<^verbatim>\<open>jsonrpc\<close> member is not \<^verbatim>\<open>"2.0"\<close>, and a value the
  decoder rejects.
\<close>

definition healthy :: conn where
  "healthy = \<lparr>written = [], wfail = None\<rparr>"

definition closed_pipe :: conn where
  "closed_pipe = \<lparr>written = [], wfail = Some (StreamError ''io: read/write on closed pipe'')\<rparr>"

definition fresh :: Request where
  "fresh = \<lparr>ServiceMethod = '''', Seq = 0\<rparr>"

definition call_Sub :: incoming where
  "call_Sub = \<lparr>in_err = None, in_jsonrpc = Some ''2.0'', in_method = Some ''Arith.Sub'',
                in_params = Some ''[42, 23]'', in_id = Some ''1''\<rparr>"

definition notify_Update :: incoming where
  "notify_Update = \<lparr>in_err = None, in_jsonrpc = Some ''2.0'',
                     in_method = Some ''Notification.Update'',
                     in_params = Some ''[1,2,3,4,5]'', in_id = None\<rparr>"

definition call_foobar :: incoming where
  "call_foobar = \<lparr>in_err = None, in_jsonrpc = Some ''2.0'', in_method = Some ''foobar'',
                   in_params = None, in_id = Some ''7''\<rparr>"

definition call_no_params :: incoming where
  "call_no_params = \<lparr>in_err = None, in_jsonrpc = Some ''2.0'',
                      in_method = Some ''Arith.Foobar'', in_params = None, in_id = Some ''8''\<rparr>"

definition call_v1 :: incoming where
  "call_v1 = \<lparr>in_err = None, in_jsonrpc = Some ''1.0'', in_method = Some ''Arith.Sub'',
               in_params = Some ''[42, 23]'', in_id = Some ''1''\<rparr>"

definition call_unversioned :: incoming where
  "call_unversioned = \<lparr>in_err = None, in_jsonrpc = None, in_method = Some ''Arith.Sub'',
                        in_params = Some ''[42, 23]'', in_id = Some ''1''\<rparr>"

definition bad_json :: incoming where
  "bad_json = \<lparr>in_err = Some (JSONError ''invalid character''), in_jsonrpc = Some ''2.0'',
                in_method = None, in_params = None, in_id = None\<rparr>"

text \<open>Two destinations for \<^verbatim>\<open>ReadRequestBody\<close>: a slice of integers, and a shape that the
  parameters never fit.\<close>

definition into_ints :: "RawMessage \<Rightarrow> int list option" where
  "into_ints p = (if p = ''[42, 23]'' then Some [42, 23] else None)"

definition into_nothing :: "RawMessage \<Rightarrow> int list option" where
  "into_nothing p = None"

section \<open>Properties\<close>

subsection \<open>Auxiliary facts\<close>

lemmas Err_defs =
  ErrCodeParse_def ErrCodeInvalidReq_def ErrCodeMethodNotFound_def ErrCodeInvalidParams_def
  ErrCodeInternal_def ErrMsgParse_def ErrMsgInvalidReq_def ErrMsgMethodNotFound_def
  ErrMsgInvalidParams_def ErrMsgInternal_def

lemmas eval_defs =
  healthy_def closed_pipe_def fresh_def call_Sub_def notify_Update_def call_foobar_def
  call_no_params_def call_v1_def call_unversioned_def bad_json_def into_ints_def
  into_nothing_def NewServerCodec_def ReadRequestHeader_def Decode_def store_def reset_def
  LastIndex_def WriteResponse_def Encode_def Marshal_def marshalable_def members_def
  Write_def Version_def Let_def ReadRequestBody_def null_RawMessage_def Err_defs

lemma take1_drop: "i < length s \<Longrightarrow> take (Suc 0) (drop i s) = [s ! i]"
  by (metis Cons_nth_drop_Suc take0 take_Suc_Cons)

text \<open>The test \<^verbatim>\<open>dot < 0\<close> of \<^verbatim>\<open>ReadRequestHeader\<close> holds exactly when the method string
  has no dot.\<close>

lemma LastIndex_dot: "LastIndex s ''.'' < 0 \<longleftrightarrow> CHR ''.'' \<notin> set s"
proof (cases "s = []")
  case True
  then show ?thesis by (simp add: LastIndex_def)
next
  case False
  then have len: "Suc (length s - Suc 0) = length s" by (cases s) simp_all
  let ?hits = "filter (\<lambda>i. take (Suc 0) (drop i s) = ''.'') (rev [0 ..< length s])"
  have hits: "?hits = [] \<longleftrightarrow> CHR ''.'' \<notin> set s"
  proof
    assume e: "?hits = []"
    show "CHR ''.'' \<notin> set s"
    proof
      assume "CHR ''.'' \<in> set s"
      then obtain i where i: "i < length s" "s ! i = CHR ''.''"
        by (auto simp: in_set_conv_nth)
      then have "i \<in> set ?hits" by (simp add: take1_drop)
      with e show False by simp
    qed
  next
    assume n: "CHR ''.'' \<notin> set s"
    have "\<And>i. i < length s \<Longrightarrow> take (Suc 0) (drop i s) \<noteq> ''.''"
      using n nth_mem [of _ s] by (fastforce simp: take1_drop)
    then show "?hits = []" by (simp add: filter_empty_conv)
  qed
  show ?thesis
  proof (cases ?hits)
    case Nil
    with hits False len show ?thesis by (simp add: LastIndex_def)
  next
    case (Cons i rest)
    with hits False len show ?thesis by (simp add: LastIndex_def)
  qed
qed

lemma Decode_Nil: "Decode [] q = ([], q, Some EOF)"
  by (simp add: Decode_def)

lemma Decode_Cons: "Decode (v # rest) q = (rest, store v q, in_err v)"
  by (simp add: Decode_def)

text \<open>After \<^verbatim>\<open>reset\<close>, the request holds exactly the members of the value just decoded.\<close>

lemma store_reset:
  "store v (reset q) =
     \<lparr>serverRequest.Version = (case in_jsonrpc v of None \<Rightarrow> [] | Some s \<Rightarrow> s),
      Method = (case in_method v of None \<Rightarrow> [] | Some s \<Rightarrow> s),
      Params = in_params v, serverRequest.Id = in_id v\<rparr>"
  by (simp add: store_def reset_def split: option.splits)

text \<open>The four ways out of \<^verbatim>\<open>ReadRequestHeader\<close>.\<close>

lemma ReadRequestHeader_EOF:
  "dec cd = [] \<Longrightarrow>
   ReadRequestHeader cd r = (cd\<lparr>dec := [], req := reset (req cd)\<rparr>, r, Some EOF)"
  by (simp add: ReadRequestHeader_def Decode_Nil)

lemma ReadRequestHeader_decode_error:
  "dec cd = v # rest \<Longrightarrow> in_err v = Some e \<Longrightarrow>
   ReadRequestHeader cd r = (cd\<lparr>dec := rest, req := store v (reset (req cd))\<rparr>, r, Some e)"
  by (simp add: ReadRequestHeader_def Decode_Cons)

lemma ReadRequestHeader_ill_formed:
  "dec cd = v # rest \<Longrightarrow> in_err v = None \<Longrightarrow> Method (store v (reset (req cd))) = m \<Longrightarrow>
   CHR ''.'' \<notin> set m \<Longrightarrow>
   ReadRequestHeader cd r =
     (cd\<lparr>dec := rest, req := store v (reset (req cd))\<rparr>, r\<lparr>ServiceMethod := m\<rparr>,
      Some (RPC \<lparr>Code = ErrCodeInvalidReq, Msg = ErrMsgInvalidReq,
                 Data = IString (''rpc: service/method request ill-formed: '' @ m)\<rparr>))"
  by (simp add: ReadRequestHeader_def Decode_Cons LastIndex_dot Let_def)

lemma ReadRequestHeader_accept:
  "dec cd = v # rest \<Longrightarrow> in_err v = None \<Longrightarrow> Method (store v (reset (req cd))) = m \<Longrightarrow>
   CHR ''.'' \<in> set m \<Longrightarrow>
   ReadRequestHeader cd r =
     (cd\<lparr>dec := rest,
         seq := seq cd + 1,
         pending := (pending cd)(seq cd + 1 \<mapsto> serverRequest.Id (store v (reset (req cd)))),
         req := (store v (reset (req cd)))\<lparr>serverRequest.Id := None\<rparr>\<rparr>,
      r\<lparr>ServiceMethod := m, Request.Seq := seq cd + 1\<rparr>, None)"
  by (simp add: ReadRequestHeader_def Decode_Cons LastIndex_dot Let_def)

text \<open>An accepted request is filed under the sequence number handed back, with the
  identifier it came with: \<open>None\<close> for a request without an \<^verbatim>\<open>id\<close> member.\<close>

lemma ReadRequestHeader_files_id:
  "dec cd = v # rest \<Longrightarrow> ReadRequestHeader cd r = (cd', r', None) \<Longrightarrow>
   Request.Seq r' = seq cd + 1 \<and> pending cd' (Request.Seq r') = Some (in_id v)"
  by (auto simp: ReadRequestHeader_def Decode_Cons store_reset Let_def
      split: option.splits if_splits)

text \<open>The encoder.\<close>

lemma Encode_ok:
  "enc cd = None \<Longrightarrow> wfail (rwc cd) = None \<Longrightarrow> marshalable resp \<Longrightarrow>
   Encode cd resp =
     (cd\<lparr>rwc := (rwc cd)\<lparr>written := written (rwc cd) @ [Encoded (JObject (members resp))]\<rparr>\<rparr>,
      None)"
  by (simp add: Encode_def Marshal_def Write_def)

lemma Encode_failed:
  "enc cd \<noteq> None \<or> wfail (rwc cd) \<noteq> None \<or> \<not> marshalable resp \<Longrightarrow>
   rwc (fst (Encode cd resp)) = rwc cd \<and> snd (Encode cd resp) \<noteq> None"
  by (auto simp: Encode_def Marshal_def Write_def split: option.splits)

lemma Encode_sticky: "enc cd = Some e \<Longrightarrow> Encode cd resp = (cd, Some e)"
  by (simp add: Encode_def)

lemma Encode_keeps_table:
  "pending (fst (Encode cd resp)) = pending cd \<and> seq (fst (Encode cd resp)) = seq cd"
  by (auto simp: Encode_def Write_def split: option.splits sum.splits)

text \<open>\<^verbatim>\<open>Encode\<close> returns nil exactly when the encoder holds no error, the value marshals and
  the stream accepts the write.\<close>

lemma Encode_nil_iff:
  "snd (Encode cd resp) = None \<longleftrightarrow>
   enc cd = None \<and> wfail (rwc cd) = None \<and> marshalable resp"
  by (auto simp: Encode_def Marshal_def Write_def split: option.splits)

lemma WriteResponse_no_entry_no_error:
  "pending cd (Response.Seq r) = None \<Longrightarrow> Response.Error r = None \<Longrightarrow>
   WriteResponse cd r x = (cd, Some (ErrorString ''invalid sequence number in response''))"
  by (simp add: WriteResponse_def)

lemma pending_after_WriteResponse:
  "pending (fst (WriteResponse cd r x)) (Response.Seq r) = None"
  by (simp add: WriteResponse_def Let_def Encode_keeps_table split: option.splits)

text \<open>
  Sequence numbers are handed out from 1 upwards, so the number 0 has no entry until the
  \<^verbatim>\<open>uint64\<close> counter wraps around. A failed \<^verbatim>\<open>ReadRequestHeader\<close> does not assign
  \<^verbatim>\<open>r.Seq\<close>; a request that was zero before the call still carries 0 after it.
\<close>

lemma NewServerCodec_no_zero: "pending (NewServerCodec input w) 0 = None"
  by (simp add: NewServerCodec_def)

lemma ReadRequestHeader_no_zero:
  "pending cd 0 = None \<Longrightarrow> seq cd + 1 \<noteq> 0 \<Longrightarrow>
   pending (fst (ReadRequestHeader cd r)) 0 = None"
  by (auto simp: ReadRequestHeader_def Decode_def Let_def split: list.splits option.splits)

lemma WriteResponse_no_zero:
  "pending cd 0 = None \<Longrightarrow> pending (fst (WriteResponse cd r x)) 0 = None"
  by (auto simp: WriteResponse_def Let_def Encode_keeps_table split: option.splits)

lemma ReadRequestHeader_keeps_Seq_on_error:
  "ReadRequestHeader cd r = (cd', r', Some e) \<Longrightarrow> Request.Seq r' = Request.Seq r"
  by (auto simp: ReadRequestHeader_def Decode_def Let_def
      split: list.splits option.splits if_splits)

subsection \<open>Responses\<close>

text \<open>
  C1. No sequence number is answered twice. Whatever the first \<^verbatim>\<open>WriteResponse\<close> for a
  sequence number did, the table has no entry for that number afterwards; a second call
  for the same number that carries no error finds none, returns the local error
  \<^verbatim>\<open>invalid sequence number in response\<close> and leaves the codec, and with it the stream, as
  it was.
\<close>

theorem WriteResponse_at_most_once:
  assumes "Response.Seq r2 = Response.Seq r" and "Response.Error r2 = None"
  shows "pending (fst (WriteResponse cd r x)) (Response.Seq r) = None \<and>
         WriteResponse (fst (WriteResponse cd r x)) r2 x2 =
           (fst (WriteResponse cd r x),
            Some (ErrorString ''invalid sequence number in response''))"
  using assms pending_after_WriteResponse [of cd r x]
  by (simp add: WriteResponse_no_entry_no_error)

text \<open>The first test of \<^verbatim>\<open>server_test.go\<close>: the call is answered once, and the second
  attempt writes nothing.\<close>

theorem WriteResponse_at_most_once_witness:
  "Response.Seq \<lparr>Response.Seq = 1, Error = None\<rparr> = Response.Seq \<lparr>Response.Seq = 1, Error = None\<rparr> \<and>
   Response.Error \<lparr>Response.Seq = 1, Error = None\<rparr> = None \<and>
   written (rwc (fst (WriteResponse
       (fst (ReadRequestHeader (NewServerCodec [call_Sub] healthy) fresh))
       \<lparr>Response.Seq = 1, Error = None\<rparr> (IValue ''19'')))) =
     [Encoded (JObject [(''jsonrpc'', JString ''2.0''), (''id'', JRaw ''1''),
                        (''result'', JRaw ''19'')])] \<and>
   WriteResponse
     (fst (WriteResponse
       (fst (ReadRequestHeader (NewServerCodec [call_Sub] healthy) fresh))
       \<lparr>Response.Seq = 1, Error = None\<rparr> (IValue ''19'')))
     \<lparr>Response.Seq = 1, Error = None\<rparr> (IValue ''19'') =
     (fst (WriteResponse
       (fst (ReadRequestHeader (NewServerCodec [call_Sub] healthy) fresh))
       \<lparr>Response.Seq = 1, Error = None\<rparr> (IValue ''19'')),
      Some (ErrorString ''invalid sequence number in response''))"
  using WriteResponse_at_most_once
    [of "\<lparr>Response.Seq = 1, Error = None\<rparr>" "\<lparr>Response.Seq = 1, Error = None\<rparr>"
        "fst (ReadRequestHeader (NewServerCodec [call_Sub] healthy) fresh)"
        "IValue ''19''" "IValue ''19''"]
  by (simp add: eval_defs)

text \<open>
  C2. A notification gets no response envelope, but the stream is not left untouched:
  when the stored identifier is the nil marker, \<^verbatim>\<open>WriteResponse\<close> removes the entry, makes
  one direct write of the single byte \<^verbatim>\<open>"\n"\<close> (the comment in the source calls it the empty
  response), never calls the encoder, and returns nil. On a stream that accepts the write
  the newline is the only thing added; on a stream that refuses it nothing is added.
\<close>

theorem WriteResponse_notification_writes_newline:
  assumes "pending cd (Response.Seq r) = Some None"
  shows "WriteResponse cd r x =
           (cd\<lparr>pending := (pending cd)(Response.Seq r := None),
               rwc := (if wfail (rwc cd) = None
                       then (rwc cd)\<lparr>written := written (rwc cd) @ [Raw [CHR 0x0A]]\<rparr>
                       else rwc cd)\<rparr>,
            None)"
  using assms by (auto simp: WriteResponse_def Write_def Let_def)

theorem WriteResponse_notification_writes_newline_witness:
  "pending (fst (ReadRequestHeader (NewServerCodec [notify_Update] healthy) fresh)) 1 = Some None \<and>
   snd (WriteResponse (fst (ReadRequestHeader (NewServerCodec [notify_Update] healthy) fresh))
          \<lparr>Response.Seq = 1, Error = None\<rparr> (IValue ''0'')) = None \<and>
   written (rwc (fst (WriteResponse
       (fst (ReadRequestHeader (NewServerCodec [notify_Update] healthy) fresh))
       \<lparr>Response.Seq = 1, Error = None\<rparr> (IValue ''0'')))) = [Raw [CHR 0x0A]]"
  using WriteResponse_notification_writes_newline
    [of "fst (ReadRequestHeader (NewServerCodec [notify_Update] healthy) fresh)"
        "\<lparr>Response.Seq = 1, Error = None\<rparr>" "IValue ''0''"]
  by (simp add: eval_defs)

text \<open>The notification of \<^verbatim>\<open>server_test.go\<close>, read from a new connection and answered:
  the stream was empty before the call and holds one byte after it.\<close>

theorem WriteResponse_notification_writes_newline_counterexample:
  "written (rwc (fst (ReadRequestHeader (NewServerCodec [notify_Update] healthy) fresh))) = [] \<and>
   written (rwc (fst (WriteResponse
       (fst (ReadRequestHeader (NewServerCodec [notify_Update] healthy) fresh))
       \<lparr>Response.Seq = 1, Error = None\<rparr> INil))) = [Raw [CHR 0x0A]] \<and>
   written (rwc (fst (WriteResponse
       (fst (ReadRequestHeader (NewServerCodec [notify_Update] healthy) fresh))
       \<lparr>Response.Seq = 1, Error = None\<rparr> INil))) \<noteq>
   written (rwc (fst (ReadRequestHeader (NewServerCodec [notify_Update] healthy) fresh)))"
  by (simp add: eval_defs)

text \<open>
  C3. A sequence number without an entry. If the response carries an error, the only
  thing the call can write is the envelope \<^verbatim>\<open>{"jsonrpc":"2.0","id":null,"error":...}\<close> with
  exactly that error, and the call returns what the encoder returns. That is nil, with the
  envelope written, exactly when the encoder holds no error of an earlier write, the error
  value can be marshalled and the stream accepts the write; in every other case nothing is
  written and the encoder's error comes back. The table is not touched. If the response
  carries no error, nothing is written and the call returns the local error
  \<^verbatim>\<open>invalid sequence number in response\<close>, which is not an RPC error.
\<close>

theorem WriteResponse_unknown_seq:
  assumes "pending cd (Response.Seq r) = None"
  shows "(\<forall>e. Response.Error r = Some e \<longrightarrow>
            written (rwc (fst (WriteResponse cd r x))) =
              written (rwc cd) @
              (if snd (WriteResponse cd r x) = None
               then [Encoded (JObject [(''jsonrpc'', JString ''2.0''), (''id'', JRaw ''null''),
                                       (''error'', error_json e)])]
               else []) \<and>
            (snd (WriteResponse cd r x) = None) =
              (enc cd = None \<and> wfail (rwc cd) = None \<and> marshalable_error e) \<and>
            pending (fst (WriteResponse cd r x)) = pending cd) \<and>
         (Response.Error r = None \<longrightarrow>
            WriteResponse cd r x =
              (cd, Some (ErrorString ''invalid sequence number in response'')))"
proof (intro conjI allI impI)
  fix e
  assume e: "Response.Error r = Some e"
  let ?resp = "\<lparr>serverResponse.Version = Version, Id = Some null_RawMessage, Result = INil,
                 Error = Some e\<rparr>"
  have W: "WriteResponse cd r x = Encode cd ?resp"
    using assms e by (simp add: WriteResponse_def)
  have M: "members ?resp = [(''jsonrpc'', JString ''2.0''), (''id'', JRaw ''null''),
                             (''error'', error_json e)]"
    by (simp add: members_def Version_def null_RawMessage_def)
  have m: "marshalable ?resp = marshalable_error e"
    by (simp add: marshalable_def)
  show "(snd (WriteResponse cd r x) = None) =
          (enc cd = None \<and> wfail (rwc cd) = None \<and> marshalable_error e)"
    using W m by (simp add: Encode_nil_iff)
  show "pending (fst (WriteResponse cd r x)) = pending cd"
    using W by (simp add: Encode_keeps_table)
  show "written (rwc (fst (WriteResponse cd r x))) =
          written (rwc cd) @
          (if snd (WriteResponse cd r x) = None
           then [Encoded (JObject [(''jsonrpc'', JString ''2.0''), (''id'', JRaw ''null''),
                                   (''error'', error_json e)])]
           else [])"
  proof (cases "enc cd = None \<and> wfail (rwc cd) = None \<and> marshalable ?resp")
    case True
    then have "Encode cd ?resp =
        (cd\<lparr>rwc := (rwc cd)\<lparr>written := written (rwc cd) @
               [Encoded (JObject (members ?resp))]\<rparr>\<rparr>, None)"
      by (simp add: Encode_ok)
    with W M show ?thesis by simp
  next
    case False
    then have "enc cd \<noteq> None \<or> wfail (rwc cd) \<noteq> None \<or> \<not> marshalable ?resp"
      by simp
    from Encode_failed [OF this] W show ?thesis by simp
  qed
next
  assume "Response.Error r = None"
  with assms show "WriteResponse cd r x =
      (cd, Some (ErrorString ''invalid sequence number in response''))"
    by (simp add: WriteResponse_no_entry_no_error)
qed

text \<open>An unknown sequence number on a new codec: with a parse error, and without an
  error.\<close>

theorem WriteResponse_unknown_seq_witness:
  "pending (NewServerCodec [] healthy) 5 = None \<and>
   enc (NewServerCodec [] healthy) = None \<and> wfail (rwc (NewServerCodec [] healthy)) = None \<and>
   marshalable_error (RPC \<lparr>Code = ErrCodeParse, Msg = ErrMsgParse, Data = INil\<rparr>) \<and>
   snd (WriteResponse (NewServerCodec [] healthy)
       \<lparr>Response.Seq = 5,
        Error = Some (RPC \<lparr>Code = ErrCodeParse, Msg = ErrMsgParse, Data = INil\<rparr>)\<rparr> INil) = None \<and>
   written (rwc (fst (WriteResponse (NewServerCodec [] healthy)
       \<lparr>Response.Seq = 5,
        Error = Some (RPC \<lparr>Code = ErrCodeParse, Msg = ErrMsgParse, Data = INil\<rparr>)\<rparr> INil))) =
     [Encoded (JObject [(''jsonrpc'', JString ''2.0''), (''id'', JRaw ''null''),
        (''error'', JObject [(''code'', JInt (- 32700)),
                             (''message'', JString ''Parse error'')])])] \<and>
   WriteResponse (NewServerCodec [] healthy) \<lparr>Response.Seq = 5, Error = None\<rparr> (IValue ''19'') =
     (NewServerCodec [] healthy, Some (ErrorString ''invalid sequence number in response''))"
  using
    WriteResponse_unknown_seq [of "NewServerCodec [] healthy"
      "\<lparr>Response.Seq = 5,
        Error = Some (RPC \<lparr>Code = ErrCodeParse, Msg = ErrMsgParse, Data = INil\<rparr>)\<rparr>" INil]
    WriteResponse_unknown_seq [of "NewServerCodec [] healthy"
      "\<lparr>Response.Seq = 5, Error = None\<rparr>" "IValue ''19''"]
  by (simp add: eval_defs)

text \<open>The parse error under an unknown sequence number on a closed pipe: the call returns
  the error of the write, and no envelope is written.\<close>

theorem WriteResponse_unknown_seq_counterexample:
  "pending (NewServerCodec [] closed_pipe) 5 = None \<and>
   snd (WriteResponse (NewServerCodec [] closed_pipe)
       \<lparr>Response.Seq = 5,
        Error = Some (RPC \<lparr>Code = ErrCodeParse, Msg = ErrMsgParse, Data = INil\<rparr>)\<rparr> INil) =
     Some (StreamError ''io: read/write on closed pipe'') \<and>
   written (rwc (fst (WriteResponse (NewServerCodec [] closed_pipe)
       \<lparr>Response.Seq = 5,
        Error = Some (RPC \<lparr>Code = ErrCodeParse, Msg = ErrMsgParse, Data = INil\<rparr>)\<rparr> INil))) = []"
  by (simp add: eval_defs)

text \<open>
  C7. The envelope for a resolved identifier that is not the nil marker. Whatever such a
  call writes is one envelope that starts with \<^verbatim>\<open>"jsonrpc":"2.0"\<close> and the stored identifier.
  With an error in the response, the envelope ends with the member \<^verbatim>\<open>error\<close> holding that
  error, and \<^verbatim>\<open>result\<close> is left out. Without an error, and for a value \<open>x\<close> that is not the
  nil interface, it ends with the member \<^verbatim>\<open>result\<close> holding \<open>x\<close>, and \<^verbatim>\<open>error\<close> is left out.
  Without an error and for the nil interface, the \<^verbatim>\<open>omitempty\<close> tag drops \<^verbatim>\<open>result\<close> as well:
  the envelope then has neither member. It never has both. Nothing is written when the
  call returns an error.
\<close>

theorem WriteResponse_envelope:
  assumes "pending cd (Response.Seq r) = Some (Some b)"
  shows "written (rwc (fst (WriteResponse cd r x))) =
           written (rwc cd) @
           (if snd (WriteResponse cd r x) = None
            then [Encoded (JObject
                   ([(''jsonrpc'', JString ''2.0''), (''id'', JRaw b)] @
                    (case Response.Error r of
                       Some e \<Rightarrow> [(''error'', error_json e)]
                     | None \<Rightarrow> if x = INil then [] else [(''result'', iface_json x)])))]
            else [])"
proof -
  let ?resp = "if Response.Error r = None
     then \<lparr>serverResponse.Version = Version, Id = Some b, Result = x, Error = None\<rparr>
     else \<lparr>serverResponse.Version = Version, Id = Some b, Result = INil,
           Error = Response.Error r\<rparr>"
  let ?cd1 = "cd\<lparr>pending := (pending cd)(Response.Seq r := None)\<rparr>"
  have W: "WriteResponse cd r x = Encode ?cd1 ?resp"
    using assms by (simp add: WriteResponse_def Let_def)
  have M: "members ?resp = [(''jsonrpc'', JString ''2.0''), (''id'', JRaw b)] @
                    (case Response.Error r of
                       Some e \<Rightarrow> [(''error'', error_json e)]
                     | None \<Rightarrow> if x = INil then [] else [(''result'', iface_json x)])"
    by (simp add: members_def Version_def split: option.splits)
  show ?thesis
  proof (cases "enc ?cd1 = None \<and> wfail (rwc ?cd1) = None \<and> marshalable ?resp")
    case True
    then have "Encode ?cd1 ?resp =
        (?cd1\<lparr>rwc := (rwc ?cd1)\<lparr>written := written (rwc ?cd1) @
                 [Encoded (JObject (members ?resp))]\<rparr>\<rparr>, None)"
      by (simp add: Encode_ok)
    with W M show ?thesis by simp
  next
    case False
    then have "enc ?cd1 \<noteq> None \<or> wfail (rwc ?cd1) \<noteq> None \<or> \<not> marshalable ?resp"
      by simp
    from Encode_failed [OF this] W show ?thesis by simp
  qed
qed

text \<open>The first call of \<^verbatim>\<open>server_test.go\<close>, answered with a result, and answered with
  the error \<^verbatim>\<open>Method not found\<close>.\<close>

theorem WriteResponse_envelope_witness:
  "pending (fst (ReadRequestHeader (NewServerCodec [call_Sub] healthy) fresh)) 1 =
     Some (Some ''1'') \<and>
   WriteResponse (fst (ReadRequestHeader (NewServerCodec [call_Sub] healthy) fresh))
       \<lparr>Response.Seq = 1, Error = None\<rparr> (IValue ''19'') =
     ((fst (ReadRequestHeader (NewServerCodec [call_Sub] healthy) fresh))
        \<lparr>pending := Map.empty,
         rwc := \<lparr>written = [Encoded (JObject [(''jsonrpc'', JString ''2.0''),
                                               (''id'', JRaw ''1''), (''result'', JRaw ''19'')])],
                 wfail = None\<rparr>\<rparr>,
      None) \<and>
   written (rwc (fst (WriteResponse
       (fst (ReadRequestHeader (NewServerCodec [call_Sub] healthy) fresh))
       \<lparr>Response.Seq = 1,
        Error = Some (RPC \<lparr>Code = ErrCodeMethodNotFound, Msg = ErrMsgMethodNotFound,
                           Data = INil\<rparr>)\<rparr>
       (IValue ''{}'')))) =
     [Encoded (JObject [(''jsonrpc'', JString ''2.0''), (''id'', JRaw ''1''),
        (''error'', JObject [(''code'', JInt (- 32601)),
                             (''message'', JString ''Method not found'')])])]"
  using
    WriteResponse_envelope
      [of "fst (ReadRequestHeader (NewServerCodec [call_Sub] healthy) fresh)"
          "\<lparr>Response.Seq = 1, Error = None\<rparr>" "''1''" "IValue ''19''"]
    WriteResponse_envelope
      [of "fst (ReadRequestHeader (NewServerCodec [call_Sub] healthy) fresh)"
          "\<lparr>Response.Seq = 1,
            Error = Some (RPC \<lparr>Code = ErrCodeMethodNotFound, Msg = ErrMsgMethodNotFound,
                               Data = INil\<rparr>)\<rparr>"
          "''1''" "IValue ''{}''"]
  by (simp add: eval_defs)

text \<open>The same call answered with no error and the nil interface as its value: the call
  succeeds, and the envelope written has neither \<^verbatim>\<open>result\<close> nor \<^verbatim>\<open>error\<close>.\<close>

theorem WriteResponse_envelope_counterexample:
  "pending (fst (ReadRequestHeader (NewServerCodec [call_Sub] healthy) fresh)) 1 =
     Some (Some ''1'') \<and>
   WriteResponse (fst (ReadRequestHeader (NewServerCodec [call_Sub] healthy) fresh))
       \<lparr>Response.Seq = 1, Error = None\<rparr> INil =
     ((fst (ReadRequestHeader (NewServerCodec [call_Sub] healthy) fresh))
        \<lparr>pending := Map.empty,
         rwc := \<lparr>written = [Encoded (JObject [(''jsonrpc'', JString ''2.0''),
                                               (''id'', JRaw ''1'')])],
                 wfail = None\<rparr>\<rparr>,
      None)"
  by (simp add: eval_defs)

text \<open>
  C10. For a notification \<^verbatim>\<open>WriteResponse\<close> returns nil whatever the stream does: the result
  of writing the newline is dropped.
\<close>

theorem WriteResponse_notification_returns_nil:
  assumes "pending cd (Response.Seq r) = Some None"
  shows "snd (WriteResponse cd r x) = None"
  using assms by (simp add: WriteResponse_def Let_def)

text \<open>The notification on a closed pipe: the write of the newline fails, the call does not.\<close>

theorem WriteResponse_notification_returns_nil_witness:
  "pending (fst (ReadRequestHeader (NewServerCodec [notify_Update] closed_pipe) fresh)) 1 =
     Some None \<and>
   snd (Write (rwc (fst (ReadRequestHeader (NewServerCodec [notify_Update] closed_pipe) fresh)))
          (Raw [CHR 0x0A])) =
     Some (StreamError ''io: read/write on closed pipe'') \<and>
   snd (WriteResponse (fst (ReadRequestHeader (NewServerCodec [notify_Update] closed_pipe) fresh))
         \<lparr>Response.Seq = 1, Error = None\<rparr> INil) = None"
  using WriteResponse_notification_returns_nil
    [of "fst (ReadRequestHeader (NewServerCodec [notify_Update] closed_pipe) fresh)"
        "\<lparr>Response.Seq = 1, Error = None\<rparr>" INil]
  by (simp add: eval_defs)

subsection \<open>Requests\<close>

text \<open>
  C4. A request that decodes without error and whose method string \<open>m\<close> has no dot is
  rejected with the \<^verbatim>\<open>*Error\<close> of code \<open>-32600\<close>, message \<^verbatim>\<open>Invalid Request\<close> and data
  \<^verbatim>\<open>rpc: service/method request ill-formed: \<close> followed by \<open>m\<close>. The call makes no entry
  in the table and does not assign \<^verbatim>\<open>r.Seq\<close>: the request keeps the sequence number it was
  passed in with. What \<^verbatim>\<open>WriteResponse\<close> then writes for that error under that sequence
  number is decided by the table as it was before the read. If the number has no entry,
  the envelope has the identifier \<^verbatim>\<open>null\<close> and carries the error. If the number still
  belongs to a call that has not been answered, the envelope carries the error under that
  call's identifier; if it belongs to a notification, only the newline goes out. An
  envelope is written exactly when the encoder holds no error of an earlier write and the
  stream accepts the write.
\<close>

theorem ReadRequestHeader_no_qualifier:
  assumes "dec cd = v # rest" and "in_err v = None"
    and "Method (store v (reset (req cd))) = m" and "CHR ''.'' \<notin> set m"
    and "ReadRequestHeader cd r = (cd', r', err)"
  shows "err = Some (RPC \<lparr>Code = - 32600, Msg = ''Invalid Request'',
                           Data = IString (''rpc: service/method request ill-formed: '' @ m)\<rparr>) \<and>
         pending cd' = pending cd \<and> Request.Seq r' = Request.Seq r \<and>
         written (rwc (fst (WriteResponse cd' \<lparr>Response.Seq = Request.Seq r', Error = err\<rparr> x))) =
           written (rwc cd) @
           (case pending cd (Request.Seq r) of
              None \<Rightarrow>
                if enc cd = None \<and> wfail (rwc cd) = None
                then [Encoded (JObject [(''jsonrpc'', JString ''2.0''), (''id'', JRaw ''null''),
                        (''error'',
                         JObject [(''code'', JInt (- 32600)),
                                  (''message'', JString ''Invalid Request''),
                                  (''data'', JString (''rpc: service/method request ill-formed: ''
                                                      @ m))])])]
                else []
            | Some None \<Rightarrow> if wfail (rwc cd) = None then [Raw [CHR 0x0A]] else []
            | Some (Some b) \<Rightarrow>
                if enc cd = None \<and> wfail (rwc cd) = None
                then [Encoded (JObject [(''jsonrpc'', JString ''2.0''), (''id'', JRaw b),
                        (''error'',
                         JObject [(''code'', JInt (- 32600)),
                                  (''message'', JString ''Invalid Request''),
                                  (''data'', JString (''rpc: service/method request ill-formed: ''
                                                      @ m))])])]
                else [])"
proof -
  let ?e = "RPC \<lparr>Code = - 32600, Msg = ''Invalid Request'',
                  Data = IString (''rpc: service/method request ill-formed: '' @ m)\<rparr>"
  from assms have R: "cd' = cd\<lparr>dec := rest, req := store v (reset (req cd))\<rparr>"
    "r' = r\<lparr>ServiceMethod := m\<rparr>" "err = Some ?e"
    by (simp_all add: ReadRequestHeader_ill_formed Err_defs)
  have 1: "err = Some ?e" by (fact R(3))
  have 2: "pending cd' = pending cd" by (simp add: R(1))
  have 3: "Request.Seq r' = Request.Seq r" by (simp add: R(2))
  have 4: "written (rwc (fst (WriteResponse cd' \<lparr>Response.Seq = Request.Seq r', Error = err\<rparr> x))) =
           written (rwc cd) @
           (case pending cd (Request.Seq r) of
              None \<Rightarrow>
                if enc cd = None \<and> wfail (rwc cd) = None
                then [Encoded (JObject [(''jsonrpc'', JString ''2.0''), (''id'', JRaw ''null''),
                        (''error'',
                         JObject [(''code'', JInt (- 32600)),
                                  (''message'', JString ''Invalid Request''),
                                  (''data'', JString (''rpc: service/method request ill-formed: ''
                                                      @ m))])])]
                else []
            | Some None \<Rightarrow> if wfail (rwc cd) = None then [Raw [CHR 0x0A]] else []
            | Some (Some b) \<Rightarrow>
                if enc cd = None \<and> wfail (rwc cd) = None
                then [Encoded (JObject [(''jsonrpc'', JString ''2.0''), (''id'', JRaw b),
                        (''error'',
                         JObject [(''code'', JInt (- 32600)),
                                  (''message'', JString ''Invalid Request''),
                                  (''data'', JString (''rpc: service/method request ill-formed: ''
                                                      @ m))])])]
                else [])"
  proof (cases "pending cd (Request.Seq r)")
    case None
    then show ?thesis
      unfolding R
      by (simp add: WriteResponse_def Encode_def Marshal_def marshalable_def members_def
          Write_def Version_def null_RawMessage_def split: option.splits)
  next
    case (Some b)
    then show ?thesis
      unfolding R
      by (cases b)
        (simp_all add: WriteResponse_def Encode_def Marshal_def marshalable_def members_def
          Write_def Version_def Let_def split: option.splits)
  qed
  show ?thesis
    by (intro conjI) (fact 1, fact 2, fact 3, fact 4)
qed

text \<open>The method \<^verbatim>\<open>foobar\<close> on a new connection, read into a request whose sequence number
  is zero: the answer goes out with the identifier \<^verbatim>\<open>null\<close>.\<close>

theorem ReadRequestHeader_no_qualifier_witness:
  "dec (NewServerCodec [call_foobar] healthy) = call_foobar # [] \<and> in_err call_foobar = None \<and>
   Method (store call_foobar (reset (req (NewServerCodec [call_foobar] healthy)))) = ''foobar'' \<and>
   CHR ''.'' \<notin> set ''foobar'' \<and>
   snd (snd (ReadRequestHeader (NewServerCodec [call_foobar] healthy) fresh)) =
     Some (RPC \<lparr>Code = - 32600, Msg = ''Invalid Request'',
                Data = IString ''rpc: service/method request ill-formed: foobar''\<rparr>) \<and>
   pending (NewServerCodec [call_foobar] healthy) (Request.Seq fresh) = None \<and>
   written (rwc (fst (WriteResponse
       (fst (ReadRequestHeader (NewServerCodec [call_foobar] healthy) fresh))
       \<lparr>Response.Seq =
          Request.Seq (fst (snd (ReadRequestHeader (NewServerCodec [call_foobar] healthy) fresh))),
        Error = snd (snd (ReadRequestHeader (NewServerCodec [call_foobar] healthy) fresh))\<rparr>
       INil))) =
     [Encoded (JObject [(''jsonrpc'', JString ''2.0''), (''id'', JRaw ''null''),
        (''error'', JObject [(''code'', JInt (- 32600)),
                             (''message'', JString ''Invalid Request''),
                             (''data'', JString ''rpc: service/method request ill-formed: foobar'')])])]"
proof -
  have a: "ReadRequestHeader (NewServerCodec [call_foobar] healthy) fresh =
      (fst (ReadRequestHeader (NewServerCodec [call_foobar] healthy) fresh),
       fst (snd (ReadRequestHeader (NewServerCodec [call_foobar] healthy) fresh)),
       snd (snd (ReadRequestHeader (NewServerCodec [call_foobar] healthy) fresh)))"
    by simp
  show ?thesis
    using ReadRequestHeader_no_qualifier
      [of "NewServerCodec [call_foobar] healthy" call_foobar "[]" "''foobar''" fresh _ _ _ INil,
       OF _ _ _ _ a]
    by (simp add: eval_defs)
qed

text \<open>The call \<^verbatim>\<open>Arith.Sub\<close> is read and not yet answered; the method \<^verbatim>\<open>foobar\<close> is then
  read into the same request, which still carries the sequence number 1. The error for
  \<^verbatim>\<open>foobar\<close> goes out under the identifier 1 of the first call, not under \<^verbatim>\<open>null\<close>.\<close>

theorem ReadRequestHeader_no_qualifier_counterexample:
  "snd (snd (ReadRequestHeader
     (fst (ReadRequestHeader (NewServerCodec [call_Sub, call_foobar] healthy) fresh))
     (fst (snd (ReadRequestHeader (NewServerCodec [call_Sub, call_foobar] healthy) fresh))))) =
     Some (RPC \<lparr>Code = - 32600, Msg = ''Invalid Request'',
                Data = IString ''rpc: service/method request ill-formed: foobar''\<rparr>) \<and>
   Request.Seq (fst (snd (ReadRequestHeader
     (fst (ReadRequestHeader (NewServerCodec [call_Sub, call_foobar] healthy) fresh))
     (fst (snd (ReadRequestHeader (NewServerCodec [call_Sub, call_foobar] healthy) fresh)))))) = 1 \<and>
   WriteResponse
     (fst (ReadRequestHeader
       (fst (ReadRequestHeader (NewServerCodec [call_Sub, call_foobar] healthy) fresh))
       (fst (snd (ReadRequestHeader (NewServerCodec [call_Sub, call_foobar] healthy) fresh)))))
     \<lparr>Response.Seq = 1,
      Error = Some (RPC \<lparr>Code = - 32600, Msg = ''Invalid Request'',
                         Data = IString ''rpc: service/method request ill-formed: foobar''\<rparr>)\<rparr>
     INil =
     ((fst (ReadRequestHeader
         (fst (ReadRequestHeader (NewServerCodec [call_Sub, call_foobar] healthy) fresh))
         (fst (snd (ReadRequestHeader (NewServerCodec [call_Sub, call_foobar] healthy) fresh)))))
        \<lparr>pending := Map.empty,
         rwc := \<lparr>written =
                   [Encoded (JObject [(''jsonrpc'', JString ''2.0''), (''id'', JRaw ''1''),
                      (''error'', JObject [(''code'', JInt (- 32600)),
                         (''message'', JString ''Invalid Request''),
                         (''data'', JString ''rpc: service/method request ill-formed: foobar'')])])],
                 wfail = None\<rparr>\<rparr>,
      None)"
  by (simp add: eval_defs)



text \<open>
  C6. For a request that decodes without error and whose method string \<open>m\<close> has a dot,
  \<^verbatim>\<open>ReadRequestHeader\<close> returns nil and hands back the new sequence number, the counter
  plus one, together with \<open>m\<close> as it was decoded: the whole string, qualifier included.
  The position of the dot is used for the test only.
\<close>

theorem ReadRequestHeader_returns:
  assumes "dec cd = v # rest" and "in_err v = None"
    and "Method (store v (reset (req cd))) = m" and "CHR ''.'' \<in> set m"
  shows "snd (ReadRequestHeader cd r) =
           (r\<lparr>ServiceMethod := m, Request.Seq := seq cd + 1\<rparr>, None) \<and>
         seq (fst (ReadRequestHeader cd r)) = seq cd + 1"
  using assms by (simp add: ReadRequestHeader_accept)

theorem ReadRequestHeader_returns_witness:
  "dec (NewServerCodec [call_Sub] healthy) = call_Sub # [] \<and> in_err call_Sub = None \<and>
   Method (store call_Sub (reset (req (NewServerCodec [call_Sub] healthy)))) = ''Arith.Sub'' \<and>
   CHR ''.'' \<in> set ''Arith.Sub'' \<and>
   snd (ReadRequestHeader (NewServerCodec [call_Sub] healthy) fresh) =
     (\<lparr>ServiceMethod = ''Arith.Sub'', Seq = 1\<rparr>, None)"
  using ReadRequestHeader_returns
    [of "NewServerCodec [call_Sub] healthy" call_Sub "[]" "''Arith.Sub''" fresh]
  by (simp add: eval_defs)

text \<open>The call \<^verbatim>\<open>Arith.Sub\<close>: the method handed back is \<^verbatim>\<open>Arith.Sub\<close>, not \<^verbatim>\<open>Sub\<close>.\<close>

theorem ReadRequestHeader_returns_counterexample:
  "snd (snd (ReadRequestHeader (NewServerCodec [call_Sub] healthy) fresh)) = None \<and>
   ServiceMethod (fst (snd (ReadRequestHeader (NewServerCodec [call_Sub] healthy) fresh))) =
     ''Arith.Sub'' \<and>
   ServiceMethod (fst (snd (ReadRequestHeader (NewServerCodec [call_Sub] healthy) fresh))) \<noteq>
     ''Sub''"
  by (simp add: eval_defs)

text \<open>
  C8. \<^verbatim>\<open>ReadRequestHeader\<close> never looks at the protocol version. Whatever the \<^verbatim>\<open>jsonrpc\<close>
  member \<open>j\<close> of the next value is (absent, \<^verbatim>\<open>"2.0"\<close> or any other string), the request is
  accepted exactly when the value decodes without error and its method string has a dot.
\<close>

theorem ReadRequestHeader_ignores_version:
  "(snd (snd (ReadRequestHeader (cd\<lparr>dec := v\<lparr>in_jsonrpc := j\<rparr> # rest\<rparr>) r)) = None) =
   (in_err v = None \<and> CHR ''.'' \<in> set (case in_method v of None \<Rightarrow> [] | Some s \<Rightarrow> s))"
  by (auto simp: ReadRequestHeader_def Decode_Cons store_reset LastIndex_dot Let_def
      split: option.splits)

theorem ReadRequestHeader_ignores_version_witness:
  "snd (snd (ReadRequestHeader
       ((NewServerCodec [] healthy)\<lparr>dec := call_Sub\<lparr>in_jsonrpc := Some ''1.0''\<rparr> # []\<rparr>)
       fresh)) = None \<and>
   in_err call_Sub = None \<and> in_method call_Sub = Some ''Arith.Sub''"
  using ReadRequestHeader_ignores_version
    [where cd = "NewServerCodec [] healthy" and v = call_Sub and j = "Some ''1.0''"
       and rest = "[]" and r = fresh]
  by (simp add: call_Sub_def)

text \<open>The call \<^verbatim>\<open>Arith.Sub\<close> sent as version \<^verbatim>\<open>1.0\<close>, and sent without a \<^verbatim>\<open>jsonrpc\<close>
  member: both are accepted and filed like any other call.\<close>

theorem ReadRequestHeader_version_counterexample:
  "snd (snd (ReadRequestHeader (NewServerCodec [call_v1] healthy) fresh)) = None \<and>
   pending (fst (ReadRequestHeader (NewServerCodec [call_v1] healthy) fresh)) 1 =
     Some (Some ''1'') \<and>
   serverRequest.Version (req (fst (ReadRequestHeader (NewServerCodec [call_v1] healthy) fresh))) =
     ''1.0'' \<and>
   snd (snd (ReadRequestHeader (NewServerCodec [call_unversioned] healthy) fresh)) = None \<and>
   serverRequest.Version
     (req (fst (ReadRequestHeader (NewServerCodec [call_unversioned] healthy) fresh))) = ''''"
  by (simp add: eval_defs)



end
